theory Spec2Isabelle
  imports Main
begin

section \<open>Strings\<close>

text \<open>
  A JavaScript string is modelled as a \<open>string\<close>: the list of its code units, restricted to
  the units below 256. Of the code units that \<open>String.prototype.trim\<close> strips and that the
  regular-expression class \<open>\s\<close> accepts, the ones in that range are TAB, LF, VT, FF, CR,
  SPACE and NBSP.
\<close>

definition isWhiteSpace :: "char \<Rightarrow> bool" where
  "isWhiteSpace c = (of_char c \<in> {9, 10, 11, 12, 13, 32, 160 :: nat})"

definition trim :: "string \<Rightarrow> string" where
  "trim s = rev (dropWhile isWhiteSpace (rev (dropWhile isWhiteSpace s)))"

text \<open>\<open>Array.prototype.join\<close> on an array of strings.\<close>

fun join :: "string \<Rightarrow> string list \<Rightarrow> string" where
  "join sep [] = []"
| "join sep [x] = x"
| "join sep (x # y # ys) = x @ sep @ join sep (y # ys)"

text \<open>The decimal text of a non-negative integer, as a template literal prints it.\<close>

definition digit :: "nat \<Rightarrow> char" where
  "digit d = ''0123456789'' ! d"

fun decimal :: "nat \<Rightarrow> string" where
  "decimal n =
     (if n < 10 then [digit n]
      else decimal (n div 10) @ [digit (n mod 10)])"

fun startsWith :: "string \<Rightarrow> string \<Rightarrow> bool" where
  "startsWith s [] = True"
| "startsWith [] (p # ps) = False"
| "startsWith (c # cs) (p # ps) = (c = p \<and> startsWith cs ps)"

text \<open>\<open>String.prototype.includes\<close>: the second string occurs in the first.\<close>

fun includesText :: "string \<Rightarrow> string \<Rightarrow> bool" where
  "includesText [] sub = (sub = [])"
| "includesText (c # cs) sub = (startsWith (c # cs) sub \<or> includesText cs sub)"

text \<open>The rest of \<open>s\<close> after the literal \<open>p\<close>, when \<open>s\<close> starts with it.\<close>

fun afterLiteral :: "string \<Rightarrow> string \<Rightarrow> string option" where
  "afterLiteral [] s = Some s"
| "afterLiteral (p # ps) [] = None"
| "afterLiteral (p # ps) (c # cs) = (if p = c then afterLiteral ps cs else None)"

section \<open>Values, failures and outcomes\<close>

text \<open>
  A thrown value is either an \<open>Error\<close> object, with its \<open>message\<close>, or some other value,
  kept as the text \<open>String(err)\<close> gives. The catch block of \<open>executeRequest\<close> reads
  \<open>err?.message ?? String(err)\<close>.
\<close>

datatype js_error = JsError string | NonError string

fun errorMessage :: "js_error \<Rightarrow> string" where
  "errorMessage (JsError m) = m"
| "errorMessage (NonError s) = s"

text \<open>\<open>err.message\<close> inside a template literal: the text \<open>undefined\<close> where there is none.\<close>

fun messageInTemplate :: "js_error \<Rightarrow> string" where
  "messageInTemplate (JsError m) = m"
| "messageInTemplate (NonError s) = ''undefined''"

text \<open>
  What awaiting a promise gives: its value, its rejection, or nothing at all when the
  promise never settles.
\<close>

datatype 'a outcome = Resolved 'a | Rejected js_error | Pending

text \<open>
  The JavaScript values that the container handles. \<open>Obj\<close> is an object that is neither
  callable nor then-able, with its own properties; \<open>Fn\<close> is a callable, with the flag
  saying whether it is a constructor, and with what a call without arguments does (return
  a value or throw); \<open>Thenable\<close> is an object with a callable \<open>then\<close>, with what awaiting it
  gives. Properties of callables and numbers other than integers are not represented.
\<close>

datatype jsval =
    Undefined
  | Null
  | Bool bool
  | Num int
  | Str string
  | Obj "(string \<times> jsval) list"
  | Fn bool "js_error + jsval"
  | Thenable "jsval outcome"

fun truthy :: "jsval \<Rightarrow> bool" where
  "truthy Undefined = False"
| "truthy Null = False"
| "truthy (Bool b) = b"
| "truthy (Num n) = (n \<noteq> 0)"
| "truthy (Str s) = (s \<noteq> [])"
| "truthy v = True"

fun isThenable :: "jsval \<Rightarrow> bool" where
  "isThenable (Thenable p) = True"
| "isThenable v = False"

fun isFunction :: "jsval \<Rightarrow> bool" where
  "isFunction (Fn c body) = True"
| "isFunction v = False"

text \<open>
  \<open>await v\<close>: a then-able is followed until a value that is not then-able comes out, since
  promise resolution adopts a then-able result.
\<close>

fun await :: "jsval \<Rightarrow> jsval outcome" where
  "await (Thenable (Resolved v)) = await v"
| "await (Thenable (Rejected e)) = Rejected e"
| "await (Thenable Pending) = Pending"
| "await v = Resolved v"

text \<open>
  Reading the property \<open>key\<close> of a value, as destructuring and member access do: a
  TypeError on \<open>undefined\<close> and \<open>null\<close> (the message is the engine's), \<open>undefined\<close> for a
  property that is not there.
\<close>

fun getProperty :: "jsval \<Rightarrow> string \<Rightarrow> js_error + jsval" where
  "getProperty Undefined key =
     Inl (JsError (''Cannot read properties of undefined (reading '' @ key @ '')''))"
| "getProperty Null key =
     Inl (JsError (''Cannot read properties of null (reading '' @ key @ '')''))"
| "getProperty (Obj ps) key = (case map_of ps key of None \<Rightarrow> Inr Undefined | Some v \<Rightarrow> Inr v)"
| "getProperty v key = Inr Undefined"

section \<open>The model catalog (models.ts)\<close>

definition WEBLLM_MODELS :: "string list" where
  "WEBLLM_MODELS =
     [''SmolLM2-360M-Instruct-q4f16_1-MLC'',
      ''TinyLlama-1.1B-Chat-v1.0-q4f16_1-MLC-1k'',
      ''Llama-3.2-3B-Instruct-q4f16_1-MLC'',
      ''Mistral-7B-Instruct-v0.3-q4f16_1-MLC'']"

definition DEFAULT_WEBLLM_MODEL :: string where
  "DEFAULT_WEBLLM_MODEL = ''Llama-3.2-3B-Instruct-q4f16_1-MLC''"

text \<open>
  The kernel reads the two constants of models.ts only through their names, so its
  functions take them as a parameter; \<open>models_ts\<close> is the catalog of the source.
\<close>

record catalog =
  models :: "string list"
  defaultModel :: string

definition models_ts :: catalog where
  "models_ts = \<lparr>models = WEBLLM_MODELS, defaultModel = DEFAULT_WEBLLM_MODEL\<rparr>"

text \<open>
  Modelled from the spec: \<open>isValidWebLLMModel\<close> is imported from models.ts, whose text
  under src/ holds the two constants only. The spec has every model name validated
  against the static catalog, so the function is membership in the list.
\<close>

definition isValidWebLLMModel :: "catalog \<Rightarrow> string \<Rightarrow> bool" where
  "isValidWebLLMModel cat name = (name \<in> set (models cat))"

section \<open>The settings-derived default model\<close>

text \<open>
  The module-level variable \<open>settingsDefaultModel\<close> is a \<open>string option\<close>, \<open>None\<close> for
  \<open>null\<close>. It is threaded through the functions that read it.
\<close>

definition getDefaultModel :: "catalog \<Rightarrow> string option \<Rightarrow> string" where
  "getDefaultModel cat settingsDefaultModel =
     (case settingsDefaultModel of None \<Rightarrow> defaultModel cat | Some m \<Rightarrow> m)"

text \<open>
  \<open>updateSettings\<close>, the closure that \<open>activate\<close> runs once and on every change of the
  settings: \<open>model\<close> is the value \<open>settings.get("defaultModel").composite\<close>, whatever the
  settings source holds. A value that is not a string is no member of the catalog.
\<close>

fun isValidSetting :: "catalog \<Rightarrow> jsval \<Rightarrow> string option" where
  "isValidSetting cat (Str m) = (if isValidWebLLMModel cat m then Some m else None)"
| "isValidSetting cat v = None"

definition updateSettings :: "catalog \<Rightarrow> string option \<Rightarrow> jsval \<Rightarrow> string option" where
  "updateSettings cat settingsDefaultModel model =
     (if truthy model
      then (case isValidSetting cat model of
              Some m \<Rightarrow> Some m
            | None \<Rightarrow> settingsDefaultModel)
      else settingsDefaultModel)"

section \<open>The chat session (class WebLLMChatKernel)\<close>

text \<open>
  \<open>WebLLM name\<close> is the handle that \<open>webLLM(name, {initProgressCallback})\<close> constructs;
  the constructor of the library only stores its arguments.
\<close>

datatype handle = WebLLM string

record session =
  modelName :: "string option"
  model :: "handle option"
  initialized :: bool

definition newWebLLMChatKernel :: session where
  "newWebLLMChatKernel = \<lparr>modelName = None, model = None, initialized = False\<rparr>"

definition initializeModel :: "catalog \<Rightarrow> string \<Rightarrow> session \<Rightarrow> js_error + session" where
  "initializeModel cat name s =
     (if \<not> isValidWebLLMModel cat name
      then Inl (JsError (''Invalid model: '' @ name @ ''. Use %ai model to see available models.''))
      else Inr (s\<lparr>modelName := Some name, model := Some (WebLLM name), initialized := True\<rparr>))"

definition setModel :: "catalog \<Rightarrow> string \<Rightarrow> session \<Rightarrow> (js_error + string) \<times> session" where
  "setModel cat name s =
     (if \<not> isValidWebLLMModel cat name
      then (Inl (JsError (''Invalid model: '' @ name)), s)
      else
        (let wasInitialized = initialized s in
         case initializeModel cat name s of
           Inl e \<Rightarrow> (Inl e, s)
         | Inr s' \<Rightarrow>
             (if wasInitialized
              then (Inr (''Model changed to: '' @ name), s')
              else (Inr (''Model set to: '' @ name), s'))))"

definition getModelName :: "session \<Rightarrow> string option" where
  "getModelName s = modelName s"

definition isInitialized :: "session \<Rightarrow> bool" where
  "isInitialized s = initialized s"

subsection \<open>The model runtime and the events of a call\<close>

datatype availability = Unavailable | Downloadable | Downloading | Available

text \<open>
  The text stream of \<open>streamText\<close>: fragments in arrival order, then the end of the
  stream, a failure of the iterator, or no further answer.
\<close>

datatype text_stream =
    EndOfStream
  | Chunk string text_stream
  | StreamError js_error
  | Stalled

record runtime =
  availability :: "handle \<Rightarrow> availability outcome"
  createSessionWithProgress :: "handle \<Rightarrow> unit outcome"
  streamText :: "handle \<Rightarrow> string \<Rightarrow> text_stream outcome"

text \<open>
  What a call does besides returning, in order: the calls into the model runtime, the
  invocations of \<open>onChunk\<close>, and the messages that the kernel hands to its host
  (\<open>this.stream\<close>, \<open>this.publishExecuteError\<close>).
\<close>

datatype message =
    Stream string string
  | PublishExecuteError string string "string list"

datatype event =
    CallAvailability handle
  | CallCreateSession handle
  | CallStreamText handle string
  | OnChunk string
  | Emit message

text \<open>A callback: the messages it emits, and the value it throws if it throws.\<close>

type_synonym callback = "string \<Rightarrow> message list \<times> js_error option"

text \<open>
  The loop \<open>for await (const chunk of result.textStream)\<close> of \<open>send\<close>, with \<open>reply\<close> and
  the events so far.
\<close>

fun forAwait :: "callback option \<Rightarrow> text_stream \<Rightarrow> string \<Rightarrow> event list \<Rightarrow> string outcome \<times> event list" where
  "forAwait onChunk EndOfStream reply tr = (Resolved reply, tr)"
| "forAwait onChunk (StreamError e) reply tr = (Rejected e, tr)"
| "forAwait onChunk Stalled reply tr = (Pending, tr)"
| "forAwait onChunk (Chunk chunk rest) reply tr =
     (case onChunk of
        None \<Rightarrow> forAwait onChunk rest (reply @ chunk) tr
      | Some f \<Rightarrow>
          (case f chunk of
             (msgs, Some e) \<Rightarrow> (Rejected e, tr @ OnChunk chunk # map Emit msgs)
           | (msgs, None) \<Rightarrow>
               forAwait onChunk rest (reply @ chunk) (tr @ OnChunk chunk # map Emit msgs)))"

text \<open>The part of \<open>send\<close> after the lazy initialization, on the handle \<open>this.model\<close>.\<close>

definition sendOn :: "runtime \<Rightarrow> handle \<Rightarrow> string \<Rightarrow> callback option \<Rightarrow> string outcome \<times> event list" where
  "sendOn rt m prompt onChunk =
     (case availability rt m of
        Rejected e \<Rightarrow> (Rejected e, [CallAvailability m])
      | Pending \<Rightarrow> (Pending, [CallAvailability m])
      | Resolved a \<Rightarrow>
          if a = Unavailable
          then (Rejected (JsError ''Browser does not support WebLLM / WebGPU.''), [CallAvailability m])
          else
            (case (if a = Downloadable \<or> a = Downloading
                   then (createSessionWithProgress rt m, [CallAvailability m, CallCreateSession m])
                   else (Resolved (), [CallAvailability m])) of
               (Rejected e, tr) \<Rightarrow> (Rejected e, tr)
             | (Pending, tr) \<Rightarrow> (Pending, tr)
             | (Resolved u, tr) \<Rightarrow>
                 (case streamText rt m prompt of
                    Rejected e \<Rightarrow> (Rejected e, tr @ [CallStreamText m prompt])
                  | Pending \<Rightarrow> (Pending, tr @ [CallStreamText m prompt])
                  | Resolved result \<Rightarrow>
                      forAwait onChunk result [] (tr @ [CallStreamText m prompt]))))"

definition send :: "catalog \<Rightarrow> string option \<Rightarrow> runtime \<Rightarrow> string \<Rightarrow> callback option \<Rightarrow> session
    \<Rightarrow> string outcome \<times> event list \<times> session" where
  "send cat settingsDefaultModel rt prompt onChunk s =
     (case (if \<not> initialized s \<or> model s = None
            then initializeModel cat (getDefaultModel cat settingsDefaultModel) s
            else Inr s) of
        Inl e \<Rightarrow> (Rejected e, [], s)
      | Inr s1 \<Rightarrow>
          (case model s1 of
             None \<Rightarrow>
               (Rejected (JsError ''Cannot read properties of null (reading 'availability')''), [], s1)
           | Some m \<Rightarrow>
               (case sendOn rt m prompt onChunk of (out, tr) \<Rightarrow> (out, tr, s1))))"

section \<open>The execution kernel (class WebLLMLiteKernel)\<close>

text \<open>
  Of the base class the kernel uses \<open>executionCount\<close>, \<open>parentHeader\<close> (passed on
  untouched, left out) and the two emitters. \<open>chat\<close> is its own field.
\<close>

record kernel =
  chat :: session
  executionCount :: nat

definition newWebLLMLiteKernel :: "nat \<Rightarrow> kernel" where
  "newWebLLMLiteKernel n = \<lparr>chat = newWebLLMChatKernel, executionCount = n\<rparr>"

text \<open>
  The regular expression \<open>/^%ai\s+model\s+(\S+)$/\<close>, read left to right: the literal, a
  non-empty run of white space, the literal, a non-empty run of white space, and the
  captured group, a non-empty run without white space up to the end. After a run of white
  space each next item starts with a character that is no white space, so the longest run
  is the only one that can match.
\<close>

definition matchModel :: "string \<Rightarrow> string option" where
  "matchModel trimmed =
     (case afterLiteral ''%ai'' trimmed of
        None \<Rightarrow> None
      | Some r1 \<Rightarrow>
          if takeWhile isWhiteSpace r1 = [] then None
          else
            (case afterLiteral ''model'' (dropWhile isWhiteSpace r1) of
               None \<Rightarrow> None
             | Some r2 \<Rightarrow>
                 if takeWhile isWhiteSpace r2 = [] then None
                 else
                   (let name = dropWhile isWhiteSpace r2 in
                    if name \<noteq> [] \<and> filter isWhiteSpace name = [] then Some name else None)))"

definition helpText :: string where
  \<open>helpText =
     ''WebLLM Chat Kernel Magic Commands:\<newline>\<newline>'' @
     ''  %ai model          - Show current model and list available models\<newline>'' @
     ''  %ai model <name>   - Switch to a different model\<newline>'' @
     ''  %ai help           - Show this help message\<newline>\<newline>'' @
     ''The model is initialized on first cell execution using the default from Settings.\<newline>'' @
     ''After initialization, use "%ai model <name>" to switch models.''\<close>

text \<open>
  \<open>handleMagic\<close>: \<open>Inr (Some text)\<close> for a magic command that was handled, \<open>Inr None\<close>
  for \<open>null\<close>, \<open>Inl\<close> for the error it throws; with the session after the call.
\<close>

definition handleMagic :: "catalog \<Rightarrow> string option \<Rightarrow> string \<Rightarrow> session
    \<Rightarrow> (js_error + string option) \<times> session" where
  \<open>handleMagic cat settingsDefaultModel code s =
     (let trimmed = trim code in
      if trimmed = ''%ai model'' \<or> trimmed = ''%ai models'' then
        (let current = getModelName s;
             status =
               (if isInitialized s
                then ''Current model: '' @ (case current of None \<Rightarrow> ''null'' | Some n \<Rightarrow> n)
                else ''Model not yet initialized. Default: '' @
                     getDefaultModel cat settingsDefaultModel);
             modelList = join ''\<newline>  '' (take 20 (models cat))
         in (Inr (Some (status @ ''\<newline>\<newline>Available models (showing first 20 of '' @
                        decimal (length (models cat)) @ ''):\<newline>  '' @ modelList @
                        ''\<newline>  ...\<newline>\<newline>Use "%ai model <name>" to switch models.'')), s))
      else
        (case matchModel trimmed of
           Some name \<Rightarrow>
             (case setModel cat name s of
                (Inr result, s') \<Rightarrow> (Inr (Some result), s')
              | (Inl err, s') \<Rightarrow>
                  (Inl (JsError (messageInTemplate err @
                     ''\<newline>\<newline>Use "%ai model" to see available models.'')), s'))
         | None \<Rightarrow>
             if trimmed = ''%ai'' \<or> trimmed = ''%ai help'' then (Inr (Some helpText), s)
             else (Inr None, s)))\<close>

text \<open>The reply of an execute request: the ok variant and the error variant.\<close>

datatype execute_reply =
    ExecuteOk nat
  | ExecuteError nat string string "string list"

text \<open>The catch block of \<open>executeRequest\<close>, after the events \<open>tr\<close> of the try block.\<close>

definition catchBlock :: "js_error \<Rightarrow> event list \<Rightarrow> kernel
    \<Rightarrow> execute_reply outcome \<times> event list \<times> kernel" where
  "catchBlock err tr k =
     (let message = errorMessage err in
      (Resolved (ExecuteError (executionCount k) ''Error'' message []),
       tr @ [Emit (PublishExecuteError ''Error'' message [])],
       k))"

text \<open>The callback that \<open>executeRequest\<close> hands to \<open>send\<close>: the fragment goes to stdout.\<close>

definition streamChunk :: callback where
  "streamChunk chunk = ([Stream ''stdout'' chunk], None)"

text \<open>\<open>executeRequest\<close>: \<open>content_code\<close> is \<open>content.code\<close>, \<open>None\<close> when it is missing.\<close>

definition executeRequest :: "catalog \<Rightarrow> string option \<Rightarrow> runtime \<Rightarrow> string option \<Rightarrow> kernel
    \<Rightarrow> execute_reply outcome \<times> event list \<times> kernel" where
  \<open>executeRequest cat settingsDefaultModel rt content_code k =
     (let code = (case content_code of None \<Rightarrow> [] | Some c \<Rightarrow> c) in
      case handleMagic cat settingsDefaultModel code (chat k) of
        (Inl err, s1) \<Rightarrow> catchBlock err [] (k\<lparr>chat := s1\<rparr>)
      | (Inr (Some magicResult), s1) \<Rightarrow>
          (Resolved (ExecuteOk (executionCount k)),
           [Emit (Stream ''stdout'' (magicResult @ ''\<newline>''))],
           k\<lparr>chat := s1\<rparr>)
      | (Inr None, s1) \<Rightarrow>
          (case send cat settingsDefaultModel rt code (Some streamChunk) s1 of
             (Resolved reply, tr, s2) \<Rightarrow>
               (Resolved (ExecuteOk (executionCount k)), tr, k\<lparr>chat := s2\<rparr>)
           | (Rejected err, tr, s2) \<Rightarrow> catchBlock err tr (k\<lparr>chat := s2\<rparr>)
           | (Pending, tr, s2) \<Rightarrow> (Pending, tr, k\<lparr>chat := s2\<rparr>)))\<close>

section \<open>The shared-scope resolver and the federation container (federation.ts)\<close>

text \<open>
  A version entry of the shared scope is kept as what \<open>version?.get\<close> is: \<open>None\<close> when the
  entry has no callable \<open>get\<close>, otherwise what calling the factory does. A package maps to
  its versions in the order \<open>Object.keys\<close> enumerates them, and the scope lists its
  packages in that order too. The variable \<open>sharedScope\<close> and the global
  \<open>window.__webpack_share_scopes__.default\<close> are \<open>None\<close> when they are not set.
\<close>

type_synonym version = "(js_error + jsval) option"

type_synonym share_scope = "(string \<times> (string \<times> version) list) list"

text \<open>The two unwrap steps of \<open>importShared\<close>, and the result as the caller's await sees it.\<close>

definition awaitIfThenable :: "jsval \<Rightarrow> jsval outcome" where
  "awaitIfThenable result = (if truthy result \<and> isThenable result then await result else Resolved result)"

fun callIfFunction :: "jsval \<Rightarrow> js_error + jsval" where
  "callIfFunction (Fn c body) = body"
| "callIfFunction result = Inr result"

definition unwrap :: "jsval \<Rightarrow> jsval outcome" where
  "unwrap result =
     (case awaitIfThenable result of
        Rejected e \<Rightarrow> Rejected e
      | Pending \<Rightarrow> Pending
      | Resolved r1 \<Rightarrow>
          (case callIfFunction r1 of
             Inl e \<Rightarrow> Rejected e
           | Inr r2 \<Rightarrow> await r2))"

definition importShared :: "share_scope option \<Rightarrow> share_scope option \<Rightarrow> string
    \<Rightarrow> jsval outcome \<times> share_scope option" where
  "importShared global sharedScope pkg =
     (case (case sharedScope of
              Some sc \<Rightarrow> Inr sc
            | None \<Rightarrow>
                (case global of
                   Some g \<Rightarrow> Inr g
                 | None \<Rightarrow>
                     Inl (JsError (''[webllm-chat-kernel] Shared scope not initialized when requesting '' @ pkg)))) of
        Inl e \<Rightarrow> (Rejected e, sharedScope)
      | Inr sc \<Rightarrow>
          (case map_of sc pkg of
             None \<Rightarrow>
               (Rejected (JsError (''[webllm-chat-kernel] Shared module '' @ pkg @
                  '' not found in shared scope. Available: '' @ join '','' (map fst sc))), Some sc)
           | Some versions \<Rightarrow>
               (case versions of
                  [] \<Rightarrow>
                    (Rejected (JsError (''[webllm-chat-kernel] No versions available for '' @ pkg)), Some sc)
                | (key, factory) # others \<Rightarrow>
                    (case factory of
                       None \<Rightarrow>
                         (Rejected (JsError (''[webllm-chat-kernel] Module '' @ pkg @
                            '' has no factory function'')), Some sc)
                     | Some (Inl e) \<Rightarrow> (Rejected e, Some sc)
                     | Some (Inr result) \<Rightarrow> (unwrap result, Some sc)))))"





text \<open>
  The optional import of the setting registry: any failure inside the try block leaves
  \<open>ISettingRegistry\<close> at \<open>null\<close>.
\<close>

definition importSettingRegistry :: "share_scope option \<Rightarrow> share_scope option
    \<Rightarrow> jsval outcome \<times> share_scope option" where
  "importSettingRegistry global sharedScope =
     (case importShared global sharedScope ''@jupyterlab/settingregistry'' of
        (Resolved settingModule, sc) \<Rightarrow>
          (case getProperty settingModule ''ISettingRegistry'' of
             Inl e \<Rightarrow> (Resolved Null, sc)
           | Inr x \<Rightarrow> (Resolved x, sc))
      | (Rejected e, sc) \<Rightarrow> (Resolved Null, sc)
      | (Pending, sc) \<Rightarrow> (Pending, sc))"



text \<open>The container: \<open>init\<close> stores the scope, \<open>get\<close> hands out the thunk.\<close>

definition container_init :: "share_scope option \<Rightarrow> share_scope option \<Rightarrow> share_scope option" where
  "container_init scope sharedScope = scope"


section \<open>Sequences of calls on one session\<close>

text \<open>
  A call on the chat session, with what the outside supplies for it: the settings default
  at that moment, the behaviour of the model runtime and the callback.
\<close>

datatype call =
    SetModel string
  | Send "string option" runtime string "callback option"

fun afterCall :: "catalog \<Rightarrow> session \<Rightarrow> call \<Rightarrow> session" where
  "afterCall cat s (SetModel name) = snd (setModel cat name s)"
| "afterCall cat s (Send settingsDefaultModel rt prompt onChunk) =
     snd (snd (send cat settingsDefaultModel rt prompt onChunk s))"

definition afterCalls :: "catalog \<Rightarrow> call list \<Rightarrow> session" where
  "afterCalls cat calls = foldl (afterCall cat) newWebLLMChatKernel calls"

text \<open>The arguments of the invocations of \<open>onChunk\<close> among the events, in order.\<close>

fun onChunkArguments :: "event list \<Rightarrow> string list" where
  "onChunkArguments [] = []"
| "onChunkArguments (OnChunk c # evs) = c # onChunkArguments evs"
| "onChunkArguments (ev # evs) = onChunkArguments evs"

text \<open>The fragments of a text stream, in order, and whether it ends.\<close>

fun fragments :: "text_stream \<Rightarrow> string list" where
  "fragments (Chunk c rest) = c # fragments rest"
| "fragments st = []"

fun ends :: "text_stream \<Rightarrow> bool" where
  "ends EndOfStream = True"
| "ends (Chunk c rest) = ends rest"
| "ends st = False"

fun streamOf :: "string list \<Rightarrow> text_stream" where
  "streamOf [] = EndOfStream"
| "streamOf (c # cs) = Chunk c (streamOf cs)"

text \<open>The handles that the calls into the model runtime go to.\<close>

fun handlesUsed :: "event list \<Rightarrow> handle list" where
  "handlesUsed [] = []"
| "handlesUsed (CallAvailability h # evs) = h # handlesUsed evs"
| "handlesUsed (CallCreateSession h # evs) = h # handlesUsed evs"
| "handlesUsed (CallStreamText h p # evs) = h # handlesUsed evs"
| "handlesUsed (ev # evs) = handlesUsed evs"

text \<open>The error messages among the events, in order.\<close>

fun errorEvents :: "event list \<Rightarrow> message list" where
  "errorEvents [] = []"
| "errorEvents (Emit (PublishExecuteError n v t) # evs) =
     PublishExecuteError n v t # errorEvents evs"
| "errorEvents (ev # evs) = errorEvents evs"

text \<open>The text of a magic command that was handled, empty otherwise.\<close>

fun magicText :: "(js_error + string option) \<times> session \<Rightarrow> string" where
  "magicText (Inr (Some text), s) = text"
| "magicText r = []"

text \<open>
  The invariant of the data model: the handle is there iff the session is initialized, and
  so is the model name.
\<close>

definition sessionInvariant :: "session \<Rightarrow> bool" where
  "sessionInvariant s =
     ((model s \<noteq> None) = initialized s \<and> (modelName s \<noteq> None) = initialized s)"

section \<open>Stubs for the scenarios\<close>

text \<open>
  The catalog of the spec's scenarios, a model runtime that is available and streams the
  given fragments for every prompt, one that reports no support, one whose download
  fails with a value that is no \<open>Error\<close>, and a shared scope that serves the packages the
  plugin module asks for.
\<close>

definition catalogAB :: catalog where
  "catalogAB = \<lparr>models = [''A'', ''B''], defaultModel = ''A''\<rparr>"

definition stubRuntime :: "string list \<Rightarrow> runtime" where
  "stubRuntime fs =
     \<lparr>availability = (\<lambda>h. Resolved Available),
      createSessionWithProgress = (\<lambda>h. Resolved ()),
      streamText = (\<lambda>h prompt. Resolved (streamOf fs))\<rparr>"

definition unsupportedRuntime :: runtime where
  "unsupportedRuntime =
     \<lparr>availability = (\<lambda>h. Resolved Unavailable),
      createSessionWithProgress = (\<lambda>h. Resolved ()),
      streamText = (\<lambda>h prompt. Resolved EndOfStream)\<rparr>"

definition failingDownloadRuntime :: runtime where
  "failingDownloadRuntime =
     \<lparr>availability = (\<lambda>h. Resolved Downloadable),
      createSessionWithProgress = (\<lambda>h. Rejected (NonError ''download failed'')),
      streamText = (\<lambda>h prompt. Resolved EndOfStream)\<rparr>"

definition stubScope :: share_scope where
  "stubScope =
     [(''@jupyterlite/kernel'',
         [(''0.4.0'', Some (Inr (Thenable (Resolved (Fn False (Inr
            (Obj [(''BaseKernel'', Fn True (Inr Undefined)),
                  (''IKernelSpecs'', Obj [(''name'', Str ''IKernelSpecs'')])])))))))]),
      (''@lumino/widgets'', [(''2.3.0'', Some (Inr (Obj [(''Widget'', Fn True (Inr Undefined))])))]),
      (''@jupyterlab/apputils'',
         [(''4.1.0'', Some (Inr (Fn False (Inr (Obj [(''ReactWidget'', Fn True (Inr Undefined))])))))]),
      (''react'', [(''18.2.0'', Some (Inr (Thenable (Resolved (Obj [])))))]),
      (''@jupyterlab/ui-components'',
         [(''4.1.0'', Some (Inr (Obj [(''HTMLSelect'', Fn True (Inr Undefined))])))])]"

section \<open>The session invariant\<close>

lemma isValid_set: "isValidWebLLMModel cat name = (name \<in> set (models cat))"
  by (simp add: isValidWebLLMModel_def)

lemma inv_initializeModel: "initializeModel cat name s = Inr s' \<Longrightarrow> sessionInvariant s'"
  by (auto simp: initializeModel_def sessionInvariant_def split: if_splits)

lemma inv_setModel: "sessionInvariant s \<Longrightarrow> sessionInvariant (snd (setModel cat name s))"
  by (auto simp: setModel_def Let_def split: sum.splits dest: inv_initializeModel)

lemma send_session:
  "snd (snd (send cat sd rt p cb s)) = s \<or>
   initializeModel cat (getDefaultModel cat sd) s = Inr (snd (snd (send cat sd rt p cb s)))"
  by (auto simp: send_def split: sum.splits option.splits prod.splits)

lemma inv_send: "sessionInvariant s \<Longrightarrow> sessionInvariant (snd (snd (send cat sd rt p cb s)))"
  using send_session [of cat sd rt p cb s] by (auto dest: inv_initializeModel)

lemma inv_afterCall: "sessionInvariant s \<Longrightarrow> sessionInvariant (afterCall cat s c)"
  by (cases c) (simp_all add: inv_setModel inv_send)

lemma inv_foldl: "sessionInvariant s \<Longrightarrow> sessionInvariant (foldl (afterCall cat) s cs)"
  by (induction cs arbitrary: s) (simp_all add: inv_afterCall)

text \<open>
  Claim C9. After the construction of the chat session and after any sequence of
  \<open>setModel\<close> and \<open>send\<close> calls, whatever their arguments, the settings default, the
  behaviour of the model runtime and the outcome of each call, the model handle is present
  iff the initialized flag is true, and the model name is set iff the flag is true.
\<close>

theorem session_handle_iff_initialized:
  "(model (afterCalls cat calls) \<noteq> None) = initialized (afterCalls cat calls) \<and>
   (modelName (afterCalls cat calls) \<noteq> None) = initialized (afterCalls cat calls)"
proof -
  have "sessionInvariant newWebLLMChatKernel"
    by (simp add: sessionInvariant_def newWebLLMChatKernel_def)
  then have "sessionInvariant (afterCalls cat calls)"
    unfolding afterCalls_def by (rule inv_foldl)
  then show ?thesis by (simp add: sessionInvariant_def)
qed

theorem session_handle_iff_initialized_witness:
  "afterCalls catalogAB
     [SetModel ''C'', Send None (stubRuntime [''He'', ''llo'']) ''hi'' None, SetModel ''B'']
   = \<lparr>modelName = Some ''B'', model = Some (WebLLM ''B''), initialized = True\<rparr> \<and>
   (model (afterCalls catalogAB [SetModel ''C'']) \<noteq> None) =
     initialized (afterCalls catalogAB [SetModel ''C''])"
  using session_handle_iff_initialized [of catalogAB "[SetModel ''C'']"]
  by (simp add: afterCalls_def catalogAB_def setModel_def send_def initializeModel_def
      isValid_set newWebLLMChatKernel_def getDefaultModel_def sendOn_def stubRuntime_def)

section \<open>The magic command that names a model outside the catalog\<close>

lemma dropWhile_noWhite:
  "name \<noteq> [] \<Longrightarrow> filter isWhiteSpace name = [] \<Longrightarrow> dropWhile isWhiteSpace name = name"
  by (cases name) (auto split: if_splits)

lemma last_noWhite:
  "name \<noteq> [] \<Longrightarrow> filter isWhiteSpace name = [] \<Longrightarrow> \<not> isWhiteSpace (last name)"
  by (metis filter_empty_conv last_in_set)

lemma trim_id:
  assumes ne: "s \<noteq> []" and h: "\<not> isWhiteSpace (hd s)" and l: "\<not> isWhiteSpace (last s)"
  shows "trim s = s"
proof -
  from ne h have "dropWhile isWhiteSpace s = s" by (cases s) auto
  moreover from ne l have "dropWhile isWhiteSpace (rev s) = rev s"
    by (cases "rev s") (auto simp: last_rev [symmetric] hd_rev)
  ultimately show ?thesis by (simp add: trim_def)
qed

lemma space_white: "isWhiteSpace CHR '' ''"
  by (simp add: isWhiteSpace_def)

lemma percent_not_white: "\<not> isWhiteSpace CHR ''%''"
  by (simp add: isWhiteSpace_def)

lemma m_not_white: "\<not> isWhiteSpace CHR ''m''"
  by (simp add: isWhiteSpace_def)

lemma trim_setModel:
  "name \<noteq> [] \<Longrightarrow> filter isWhiteSpace name = [] \<Longrightarrow>
   trim (''%ai model '' @ name) = ''%ai model '' @ name"
  by (rule trim_id) (simp_all add: percent_not_white last_noWhite)

lemma matchModel_setModel:
  "name \<noteq> [] \<Longrightarrow> filter isWhiteSpace name = [] \<Longrightarrow>
   matchModel (''%ai model '' @ name) = Some name"
  by (simp add: matchModel_def space_white m_not_white dropWhile_noWhite)

text \<open>
  Claim C3. For every name \<open>C\<close> that is a single token (not empty, no white space) and is
  absent from the catalog, the magic command \<open>%ai model C\<close> throws an error whose message
  is \<open>Invalid model: C\<close> followed by the hint \<open>Use "%ai model" to see available models.\<close>,
  and the session after the call is the session before it: the model name, the handle and
  the initialized flag keep their values.
\<close>

theorem magic_invalid_model_keeps_session:
  assumes "name \<noteq> []" and "filter isWhiteSpace name = []" and "name \<notin> set (models cat)"
  shows \<open>handleMagic cat settingsDefaultModel (''%ai model '' @ name) s =
     (Inl (JsError (''Invalid model: '' @ name @
        ''\<newline>\<newline>Use "%ai model" to see available models.'')), s)\<close>
proof -
  define code where "code = ''%ai model '' @ name"
  have t: "trim code = code"
    unfolding code_def using assms(1,2) by (rule trim_setModel)
  have m: "matchModel code = Some name"
    unfolding code_def using assms(1,2) by (rule matchModel_setModel)
  have n: "code \<noteq> ''%ai model''" "code \<noteq> ''%ai models''"
    using assms(1) by (auto simp: code_def)
  have \<open>handleMagic cat settingsDefaultModel code s =
     (Inl (JsError (''Invalid model: '' @ name @
        ''\<newline>\<newline>Use "%ai model" to see available models.'')), s)\<close>
    using assms(3) by (simp add: handleMagic_def t m n setModel_def isValid_set)
  then show ?thesis by (simp only: code_def)
qed

theorem magic_invalid_model_keeps_session_witness:
  \<open>handleMagic catalogAB None ''%ai model C'' newWebLLMChatKernel =
     (Inl (JsError ''Invalid model: C\<newline>\<newline>Use "%ai model" to see available models.''),
      newWebLLMChatKernel)\<close>
  using magic_invalid_model_keeps_session [of "''C''" catalogAB None newWebLLMChatKernel]
  by (simp add: catalogAB_def isWhiteSpace_def)

section \<open>Streaming in send\<close>

lemma onChunkArguments_append:
  "onChunkArguments (xs @ ys) = onChunkArguments xs @ onChunkArguments ys"
  by (induction xs rule: onChunkArguments.induct) simp_all

lemma onChunkArguments_Emit: "onChunkArguments (map Emit msgs) = []"
  by (induction msgs) simp_all

lemma forAwait_prefix:
  "forAwait (Some f) st reply tr = (out, tr') \<Longrightarrow>
   \<exists>k. onChunkArguments tr' = onChunkArguments tr @ take k (fragments st)"
proof (induction st arbitrary: reply tr)
  case (Chunk c rest)
  obtain msgs thrown where f: "f c = (msgs, thrown)" by (cases "f c")
  show ?case
  proof (cases thrown)
    case None
    with Chunk.prems f
    have "forAwait (Some f) rest (reply @ c) (tr @ OnChunk c # map Emit msgs) = (out, tr')"
      by simp
    from Chunk.IH [OF this] obtain k where
      "onChunkArguments tr' = onChunkArguments tr @ c # take k (fragments rest)"
      by (auto simp: onChunkArguments_append onChunkArguments_Emit)
    then have "onChunkArguments tr' = onChunkArguments tr @ take (Suc k) (fragments (Chunk c rest))"
      by simp
    then show ?thesis ..
  next
    case (Some e)
    with Chunk.prems f have "tr' = tr @ OnChunk c # map Emit msgs"
      by auto
    then have "onChunkArguments tr' = onChunkArguments tr @ take 1 (fragments (Chunk c rest))"
      by (simp add: onChunkArguments_append onChunkArguments_Emit)
    then show ?thesis ..
  qed
qed auto

lemma forAwait_resolved:
  "forAwait (Some f) st reply tr = (Resolved r, tr') \<Longrightarrow>
   ends st \<and> onChunkArguments tr' = onChunkArguments tr @ fragments st \<and>
   r = reply @ concat (fragments st)"
proof (induction st arbitrary: reply tr)
  case (Chunk c rest)
  obtain msgs thrown where f: "f c = (msgs, thrown)" by (cases "f c")
  with Chunk.prems have
    "forAwait (Some f) rest (reply @ c) (tr @ OnChunk c # map Emit msgs) = (Resolved r, tr')"
    by (cases thrown) auto
  from Chunk.IH [OF this] show ?case
    by (simp add: onChunkArguments_append onChunkArguments_Emit)
qed auto

lemma forAwait_total:
  "ends st \<Longrightarrow> \<forall>c. snd (f c) = None \<Longrightarrow>
   fst (forAwait (Some f) st reply tr) = Resolved (reply @ concat (fragments st))"
proof (induction st arbitrary: reply tr)
  case (Chunk c rest)
  obtain msgs where "f c = (msgs, None)" using Chunk.prems(2) by (metis prod.collapse)
  with Chunk show ?case by simp
qed simp_all

lemma sendOn_prefix:
  assumes "sendOn rt m prompt (Some f) = (out, tr)" and "streamText rt m prompt = Resolved st"
  shows "\<exists>k. onChunkArguments tr = take k (fragments st)"
proof (cases "\<exists>tr0. forAwait (Some f) st [] tr0 = (out, tr) \<and> onChunkArguments tr0 = []")
  case True
  then show ?thesis using forAwait_prefix by fastforce
next
  case False
  with assms have "onChunkArguments tr = []"
    by (auto simp: sendOn_def split: outcome.splits if_splits)
  then have "onChunkArguments tr = take 0 (fragments st)" by simp
  then show ?thesis ..
qed

lemma sendOn_resolved:
  assumes "sendOn rt m prompt (Some f) = (Resolved r, tr)"
  shows "\<exists>st. streamText rt m prompt = Resolved st \<and> ends st \<and>
           onChunkArguments tr = fragments st \<and> r = concat (fragments st)"
proof -
  from assms obtain st tr0 where st: "streamText rt m prompt = Resolved st"
    and fa: "forAwait (Some f) st [] tr0 = (Resolved r, tr)" and tr0: "onChunkArguments tr0 = []"
    by (auto simp: sendOn_def split: outcome.splits if_splits)
  from forAwait_resolved [OF fa] tr0 st show ?thesis by simp
qed

lemma sendOn_total:
  assumes "availability rt m = Resolved a" and "a \<noteq> Unavailable"
    and "a = Downloadable \<or> a = Downloading \<longrightarrow> createSessionWithProgress rt m = Resolved ()"
    and "streamText rt m prompt = Resolved st" and "ends st" and "\<forall>c. snd (f c) = None"
  shows "fst (sendOn rt m prompt (Some f)) = Resolved (concat (fragments st))"
  using assms forAwait_total [of st f "[]"]
  by (auto simp: sendOn_def)

lemma send_cases:
  "send cat sd rt prompt cb s = (out, tr, s') \<Longrightarrow>
   (case model s' of Some m \<Rightarrow> initialized s' \<longrightarrow> sendOn rt m prompt cb = (out, tr) | None \<Rightarrow> True) \<and>
   (\<not> (initialized s' \<and> model s' \<noteq> None) \<longrightarrow> tr = [] \<and> (\<exists>e. out = Rejected e))"
  by (auto simp: send_def initializeModel_def split: sum.splits option.splits prod.splits if_splits)


text \<open>
  Claim C1. Let \<open>send(prompt, onChunk)\<close> end with the outcome \<open>out\<close>, the events \<open>tr\<close> and
  the session \<open>s'\<close>. If it resolves with \<open>reply\<close>, then the model stream was opened on the
  session's handle, it ended, \<open>onChunk\<close> was invoked once per fragment of the stream in the
  order of arrival, and the concatenation of the arguments is \<open>reply\<close>; the invocations are
  events of the call, so they precede its resolution. Whatever the outcome, the arguments
  of the invocations are an initial part of the fragments of the stream. And the call does
  resolve, with the concatenation of the fragments, when the session is initialized, the
  runtime is available (with the session created where a download is needed), the stream
  ends and the callback does not throw.
\<close>

theorem send_onChunk_in_stream_order:
  assumes "send cat sd rt prompt (Some f) s = (out, tr, s')"
  shows "(\<forall>reply. out = Resolved reply \<longrightarrow>
            (\<exists>m st. model s' = Some m \<and> streamText rt m prompt = Resolved st \<and> ends st \<and>
               onChunkArguments tr = fragments st \<and> concat (onChunkArguments tr) = reply)) \<and>
         (\<forall>m st. model s' = Some m \<and> streamText rt m prompt = Resolved st \<longrightarrow>
            (\<exists>k. onChunkArguments tr = take k (fragments st))) \<and>
         (\<forall>m a st. model s' = Some m \<and> initialized s' \<and>
            availability rt m = Resolved a \<and> a \<noteq> Unavailable \<and>
            (a = Downloadable \<or> a = Downloading \<longrightarrow> createSessionWithProgress rt m = Resolved ()) \<and>
            streamText rt m prompt = Resolved st \<and> ends st \<and> (\<forall>c. snd (f c) = None) \<longrightarrow>
            out = Resolved (concat (fragments st)))"
proof (intro conjI allI impI)
  fix reply assume "out = Resolved reply"
  with send_cases [OF assms] obtain m where "model s' = Some m" "sendOn rt m prompt (Some f) = (Resolved reply, tr)"
    by (auto split: option.splits)
  with sendOn_resolved [of rt m prompt f reply tr]
  show "\<exists>m st. model s' = Some m \<and> streamText rt m prompt = Resolved st \<and> ends st \<and>
               onChunkArguments tr = fragments st \<and> concat (onChunkArguments tr) = reply"
    by auto
next
  fix m st assume a: "model s' = Some m \<and> streamText rt m prompt = Resolved st"
  show "\<exists>k. onChunkArguments tr = take k (fragments st)"
  proof (cases "initialized s'")
    case True
    with send_cases [OF assms] a have "sendOn rt m prompt (Some f) = (out, tr)" by simp
    with a show ?thesis using sendOn_prefix by blast
  next
    case False
    with send_cases [OF assms] have "onChunkArguments tr = take 0 (fragments st)" by simp
    then show ?thesis ..
  qed
next
  fix m a st
  assume a: "model s' = Some m \<and> initialized s' \<and>
            availability rt m = Resolved a \<and> a \<noteq> Unavailable \<and>
            (a = Downloadable \<or> a = Downloading \<longrightarrow> createSessionWithProgress rt m = Resolved ()) \<and>
            streamText rt m prompt = Resolved st \<and> ends st \<and> (\<forall>c. snd (f c) = None)"
  with send_cases [OF assms] have "sendOn rt m prompt (Some f) = (out, tr)" by simp
  moreover from a have "fst (sendOn rt m prompt (Some f)) = Resolved (concat (fragments st))"
    by (intro sendOn_total) auto
  ultimately show "out = Resolved (concat (fragments st))" by simp
qed

theorem send_onChunk_in_stream_order_witness:
  "send catalogAB None (stubRuntime [''He'', ''llo'']) ''hi'' (Some streamChunk) newWebLLMChatKernel =
     (Resolved ''Hello'',
      [CallAvailability (WebLLM ''A''), CallStreamText (WebLLM ''A'') ''hi'',
       OnChunk ''He'', Emit (Stream ''stdout'' ''He''), OnChunk ''llo'', Emit (Stream ''stdout'' ''llo'')],
      \<lparr>modelName = Some ''A'', model = Some (WebLLM ''A''), initialized = True\<rparr>) \<and>
   onChunkArguments [CallAvailability (WebLLM ''A''), CallStreamText (WebLLM ''A'') ''hi'',
       OnChunk ''He'', Emit (Stream ''stdout'' ''He''), OnChunk ''llo'', Emit (Stream ''stdout'' ''llo'')]
     = [''He'', ''llo'']"
  using send_onChunk_in_stream_order [of catalogAB None "stubRuntime [''He'', ''llo'']" "''hi''" streamChunk newWebLLMChatKernel
      "Resolved ''Hello''"
      "[CallAvailability (WebLLM ''A''), CallStreamText (WebLLM ''A'') ''hi'',
       OnChunk ''He'', Emit (Stream ''stdout'' ''He''), OnChunk ''llo'', Emit (Stream ''stdout'' ''llo'')]"
      "\<lparr>modelName = Some ''A'', model = Some (WebLLM ''A''), initialized = True\<rparr>"]
  by (simp add: send_def sendOn_def catalogAB_def stubRuntime_def streamChunk_def newWebLLMChatKernel_def
      initializeModel_def isValidWebLLMModel_def getDefaultModel_def)

section \<open>Failures at the execute boundary\<close>

lemma errorEvents_append: "errorEvents (xs @ ys) = errorEvents xs @ errorEvents ys"
  by (induction xs rule: errorEvents.induct) simp_all

lemma forAwait_streamChunk_errors:
  "errorEvents (snd (forAwait (Some streamChunk) st reply tr)) = errorEvents tr"
  by (induction st arbitrary: reply tr) (simp_all add: streamChunk_def errorEvents_append)

lemma sendOn_streamChunk_errors: "errorEvents (snd (sendOn rt m prompt (Some streamChunk))) = []"
  by (simp add: sendOn_def forAwait_streamChunk_errors split: outcome.splits prod.splits)

lemma send_streamChunk_errors:
  "errorEvents (fst (snd (send cat sd rt prompt (Some streamChunk) s))) = []"
  using sendOn_streamChunk_errors
  by (auto simp: send_def split: sum.splits option.splits prod.splits) (metis snd_conv)+

lemma handleMagic_None: "handleMagic cat sd code s = (Inr None, s') \<Longrightarrow> s' = s"
  by (auto simp: handleMagic_def Let_def split: if_splits option.splits prod.splits sum.splits)


text \<open>
  Claim C4. For every code input that is no magic command and on which \<open>send\<close> fails with
  the thrown value \<open>err\<close> (a failed lazy initialization of the model included, since that
  is a failure of \<open>send\<close>), \<open>executeRequest\<close> resolves: it appends one error message
  \<open>{ename: "Error", evalue, traceback: []}\<close> to the events of the call, which hold no
  other error message, and returns the error reply with the same name, value and empty
  traceback. The value is the message \<open>m\<close> when \<open>err\<close> is an \<open>Error\<close> with the message
  \<open>m\<close>, and the text \<open>t\<close> of \<open>String(err)\<close> when \<open>err\<close> is another value. It does not
  reject.
\<close>

theorem executeRequest_catches_failure:
  assumes "fst (handleMagic cat sd code (chat k)) = Inr None"
    and "send cat sd rt code (Some streamChunk) (chat k) = (Rejected err, tr, s')"
  shows "(\<forall>m. err = JsError m \<longrightarrow>
            executeRequest cat sd rt (Some code) k =
              (Resolved (ExecuteError (executionCount k) ''Error'' m []),
               tr @ [Emit (PublishExecuteError ''Error'' m [])],
               k\<lparr>chat := s'\<rparr>) \<and>
            errorEvents (fst (snd (executeRequest cat sd rt (Some code) k))) =
              [PublishExecuteError ''Error'' m []]) \<and>
         (\<forall>t. err = NonError t \<longrightarrow>
            executeRequest cat sd rt (Some code) k =
              (Resolved (ExecuteError (executionCount k) ''Error'' t []),
               tr @ [Emit (PublishExecuteError ''Error'' t [])],
               k\<lparr>chat := s'\<rparr>) \<and>
            errorEvents (fst (snd (executeRequest cat sd rt (Some code) k))) =
              [PublishExecuteError ''Error'' t []]) \<and>
         (\<forall>e. fst (executeRequest cat sd rt (Some code) k) \<noteq> Rejected e)"
proof -
  obtain s1 where hm: "handleMagic cat sd code (chat k) = (Inr None, s1)"
    using assms(1) by (cases "handleMagic cat sd code (chat k)") auto
  then have s1: "s1 = chat k" by (rule handleMagic_None)
  have ex: "executeRequest cat sd rt (Some code) k =
           (Resolved (ExecuteError (executionCount k) ''Error'' (errorMessage err) []),
            tr @ [Emit (PublishExecuteError ''Error'' (errorMessage err) [])],
            k\<lparr>chat := s'\<rparr>)"
    using hm s1 assms(2) by (simp add: executeRequest_def catchBlock_def Let_def)
  have "errorEvents tr = []"
    using send_streamChunk_errors [of cat sd rt code "chat k"] assms(2) by simp
  with ex show ?thesis by (auto simp: errorEvents_append)
qed


lemma executeRequest_never_rejects: "fst (executeRequest cat sd rt content_code k) \<noteq> Rejected e"
  by (auto simp: executeRequest_def catchBlock_def Let_def split: prod.splits sum.splits option.splits outcome.splits)

theorem executeRequest_catches_failure_witness:
  "executeRequest catalogAB None unsupportedRuntime (Some ''hi'') (newWebLLMLiteKernel 1) =
     (Resolved (ExecuteError 1 ''Error'' ''Browser does not support WebLLM / WebGPU.'' []),
      [CallAvailability (WebLLM ''A''),
       Emit (PublishExecuteError ''Error'' ''Browser does not support WebLLM / WebGPU.'' [])],
      \<lparr>chat = \<lparr>modelName = Some ''A'', model = Some (WebLLM ''A''), initialized = True\<rparr>,
        executionCount = 1\<rparr>) \<and>
   executeRequest catalogAB None failingDownloadRuntime (Some ''hi'') (newWebLLMLiteKernel 1) =
     (Resolved (ExecuteError 1 ''Error'' ''download failed'' []),
      [CallAvailability (WebLLM ''A''), CallCreateSession (WebLLM ''A''),
       Emit (PublishExecuteError ''Error'' ''download failed'' [])],
      \<lparr>chat = \<lparr>modelName = Some ''A'', model = Some (WebLLM ''A''), initialized = True\<rparr>,
        executionCount = 1\<rparr>)"
  using executeRequest_catches_failure [of catalogAB None "''hi''" "newWebLLMLiteKernel 1" unsupportedRuntime
      "JsError ''Browser does not support WebLLM / WebGPU.''" "[CallAvailability (WebLLM ''A'')]"
      "\<lparr>modelName = Some ''A'', model = Some (WebLLM ''A''), initialized = True\<rparr>"]
    executeRequest_catches_failure [of catalogAB None "''hi''" "newWebLLMLiteKernel 1" failingDownloadRuntime
      "NonError ''download failed''" "[CallAvailability (WebLLM ''A''), CallCreateSession (WebLLM ''A'')]"
      "\<lparr>modelName = Some ''A'', model = Some (WebLLM ''A''), initialized = True\<rparr>"]
  by (simp add: handleMagic_def trim_def isWhiteSpace_def matchModel_def send_def sendOn_def Let_def
      catalogAB_def unsupportedRuntime_def failingDownloadRuntime_def newWebLLMLiteKernel_def
      newWebLLMChatKernel_def initializeModel_def isValidWebLLMModel_def getDefaultModel_def)

section \<open>Setting the model on a fresh session\<close>

lemma handlesUsed_append: "handlesUsed (xs @ ys) = handlesUsed xs @ handlesUsed ys"
  by (induction xs rule: handlesUsed.induct) simp_all

lemma handlesUsed_Emit: "handlesUsed (map Emit msgs) = []"
  by (induction msgs) simp_all

lemma forAwait_handles: "handlesUsed (snd (forAwait cb st reply tr)) = handlesUsed tr"
  by (induction st arbitrary: reply tr)
    (auto simp: handlesUsed_append handlesUsed_Emit split: option.splits prod.splits)

lemma sendOn_handles:
  "handlesUsed (snd (sendOn rt m prompt cb)) \<noteq> [] \<and> set (handlesUsed (snd (sendOn rt m prompt cb))) = {m}"
  by (auto simp: sendOn_def forAwait_handles split: outcome.splits prod.splits)

lemma send_initialized:
  "initialized s \<Longrightarrow> model s = Some m \<Longrightarrow>
   send cat sd rt prompt cb s = (fst (sendOn rt m prompt cb), snd (sendOn rt m prompt cb), s)"
  by (simp add: send_def split: prod.splits)


text \<open>
  Claim C7, as stated, fails in the scenario of the spec: with the catalog \<open>["A","B"]\<close> and
  the default \<open>"A"\<close>, \<open>setModel("B")\<close> on a new session returns \<open>Model set to: B\<close>, which
  does not contain \<open>changed\<close>.
\<close>

theorem setModel_fresh_says_changed_counterexample:
  "fst (setModel catalogAB ''B'' newWebLLMChatKernel) = Inr ''Model set to: B'' \<and>
   \<not> includesText ''Model set to: B'' ''changed''"
  by (simp add: setModel_def catalogAB_def newWebLLMChatKernel_def initializeModel_def isValidWebLLMModel_def)


text \<open>
  Claim C7, amended. On a fresh session, \<open>setModel\<close> with a name of the catalog returns
  \<open>Model set to: <name>\<close> and initializes the session with that model; the text is
  \<open>Model changed to: <name>\<close> when the session was initialized before. A \<open>send\<close> after
  \<open>setModel\<close> on the fresh session makes every call into the model runtime on the handle of
  the new model, makes at least one, and leaves the model name at the new name.
\<close>

theorem setModel_fresh_says_set:
  assumes "name \<in> set (models cat)"
  shows "setModel cat name newWebLLMChatKernel =
           (Inr (''Model set to: '' @ name),
            \<lparr>modelName = Some name, model = Some (WebLLM name), initialized = True\<rparr>) \<and>
         (\<forall>s. initialized s \<longrightarrow> fst (setModel cat name s) = Inr (''Model changed to: '' @ name)) \<and>
         (\<forall>sd rt prompt cb.
            handlesUsed (fst (snd (send cat sd rt prompt cb (snd (setModel cat name newWebLLMChatKernel))))) \<noteq> [] \<and>
            set (handlesUsed (fst (snd (send cat sd rt prompt cb (snd (setModel cat name newWebLLMChatKernel))))))
              = {WebLLM name} \<and>
            getModelName (snd (snd (send cat sd rt prompt cb (snd (setModel cat name newWebLLMChatKernel)))))
              = Some name)"
proof -
  have sm: "setModel cat name newWebLLMChatKernel =
           (Inr (''Model set to: '' @ name),
            \<lparr>modelName = Some name, model = Some (WebLLM name), initialized = True\<rparr>)"
    using assms by (simp add: setModel_def initializeModel_def isValid_set newWebLLMChatKernel_def)
  have ch: "\<forall>s. initialized s \<longrightarrow> fst (setModel cat name s) = Inr (''Model changed to: '' @ name)"
    using assms by (simp add: setModel_def initializeModel_def isValid_set)
  show ?thesis
    using sm ch sendOn_handles [of _ "WebLLM name"]
    by (simp add: send_initialized [where m = "WebLLM name"] getModelName_def)
qed

theorem setModel_fresh_says_set_witness:
  "setModel catalogAB ''B'' newWebLLMChatKernel =
     (Inr ''Model set to: B'', \<lparr>modelName = Some ''B'', model = Some (WebLLM ''B''), initialized = True\<rparr>) \<and>
   handlesUsed (fst (snd (send catalogAB None (stubRuntime [''He'', ''llo'']) ''hi'' None
      (snd (setModel catalogAB ''B'' newWebLLMChatKernel))))) = [WebLLM ''B'', WebLLM ''B'']"
  using setModel_fresh_says_set [of "''B''" catalogAB]
  by (simp add: catalogAB_def setModel_def initializeModel_def isValidWebLLMModel_def
      newWebLLMChatKernel_def send_def sendOn_def stubRuntime_def)


section \<open>The default model\<close>

lemma forAwait_extends: "\<exists>ext. snd (forAwait cb st reply tr) = tr @ ext"
proof (induction st arbitrary: reply tr)
  case (Chunk c rest)
  show ?case
  proof (cases cb)
    case None
    with Chunk show ?thesis by simp
  next
    case (Some f)
    obtain msgs thrown where f: "f c = (msgs, thrown)" by (cases "f c")
    show ?thesis
    proof (cases thrown)
      case None
      from Chunk [of "reply @ c" "tr @ OnChunk c # map Emit msgs"] obtain ext where
        "snd (forAwait cb rest (reply @ c) (tr @ OnChunk c # map Emit msgs)) =
           tr @ OnChunk c # map Emit msgs @ ext" by auto
      with Some f None show ?thesis by simp
    next
      case (Some e)
      with \<open>cb = Some f\<close> f show ?thesis by simp
    qed
  qed
qed simp_all

lemma forAwait_hd: "tr \<noteq> [] \<Longrightarrow> hd (snd (forAwait cb st reply tr)) = hd tr"
  using forAwait_extends [of cb st reply tr] by auto

lemma sendOn_hd: "hd (snd (sendOn rt m prompt cb)) = CallAvailability m"
  by (auto simp: sendOn_def forAwait_hd split: outcome.splits prod.splits)

lemma updateSettings_valid:
  "(case sd of None \<Rightarrow> True | Some m \<Rightarrow> isValidWebLLMModel cat m) \<Longrightarrow>
   (case updateSettings cat sd v of None \<Rightarrow> True | Some m \<Rightarrow> isValidWebLLMModel cat m)"
  by (cases v) (auto simp: updateSettings_def split: option.splits)

lemma foldl_updateSettings_valid:
  "(case sd of None \<Rightarrow> True | Some m \<Rightarrow> isValidWebLLMModel cat m) \<Longrightarrow>
   (case foldl (updateSettings cat) sd vs of None \<Rightarrow> True | Some m \<Rightarrow> isValidWebLLMModel cat m)"
  by (induction vs arbitrary: sd) (simp_all add: updateSettings_valid)

lemma default_in_catalog: "isValidWebLLMModel models_ts (defaultModel models_ts)"
  by (simp add: isValidWebLLMModel_def models_ts_def WEBLLM_MODELS_def DEFAULT_WEBLLM_MODEL_def)


text \<open>
  Claim C10. With the catalog of models.ts: the hardcoded default is a member of the
  catalog; after any sequence of values that the settings source supplies to
  \<open>updateSettings\<close>, starting from \<open>null\<close>, \<open>getDefaultModel()\<close> is a member of the catalog;
  and \<open>send\<close> on a session that is not initialized passes the validation of the lazy
  initialization: the session comes out initialized with the default model, and the first
  event of the call is the availability query on that model's handle.
\<close>

theorem default_model_in_catalog:
  "isValidWebLLMModel models_ts DEFAULT_WEBLLM_MODEL \<and>
   isValidWebLLMModel models_ts (getDefaultModel models_ts (foldl (updateSettings models_ts) None values)) \<and>
   (\<not> initialized s \<or> model s = None \<longrightarrow>
      snd (snd (send models_ts (foldl (updateSettings models_ts) None values) rt prompt cb s)) =
        s\<lparr>modelName := Some (getDefaultModel models_ts (foldl (updateSettings models_ts) None values)),
          model := Some (WebLLM (getDefaultModel models_ts (foldl (updateSettings models_ts) None values))),
          initialized := True\<rparr> \<and>
      hd (fst (snd (send models_ts (foldl (updateSettings models_ts) None values) rt prompt cb s))) =
        CallAvailability (WebLLM (getDefaultModel models_ts (foldl (updateSettings models_ts) None values))))"
proof -
  define sd where "sd = foldl (updateSettings models_ts) None values"
  define d where "d = getDefaultModel models_ts sd"
  have "case sd of None \<Rightarrow> True | Some m \<Rightarrow> isValidWebLLMModel models_ts m"
    unfolding sd_def by (rule foldl_updateSettings_valid) simp
  then have v: "isValidWebLLMModel models_ts d"
    using default_in_catalog by (auto simp: d_def getDefaultModel_def split: option.splits)
  have "\<not> initialized s \<or> model s = None \<Longrightarrow>
      snd (snd (send models_ts sd rt prompt cb s)) =
        s\<lparr>modelName := Some d, model := Some (WebLLM d), initialized := True\<rparr> \<and>
      hd (fst (snd (send models_ts sd rt prompt cb s))) = CallAvailability (WebLLM d)"
    using v sendOn_hd [of rt "WebLLM d" prompt cb] by (auto simp: send_def initializeModel_def d_def [symmetric] split: prod.splits)
  with v default_in_catalog show ?thesis
    unfolding d_def sd_def by (simp add: models_ts_def)
qed

theorem default_model_in_catalog_witness:
  "snd (snd (send models_ts
      (foldl (updateSettings models_ts) None
         [Str ''no-such-model'', Null, Str ''SmolLM2-360M-Instruct-q4f16_1-MLC'', Num 7, Str [], Undefined])
      unsupportedRuntime ''hi'' None newWebLLMChatKernel)) =
     \<lparr>modelName = Some ''SmolLM2-360M-Instruct-q4f16_1-MLC'',
      model = Some (WebLLM ''SmolLM2-360M-Instruct-q4f16_1-MLC''), initialized = True\<rparr>"
  using default_model_in_catalog [of
      "[Str ''no-such-model'', Null, Str ''SmolLM2-360M-Instruct-q4f16_1-MLC'', Num 7, Str [], Undefined]"
      newWebLLMChatKernel unsupportedRuntime "''hi''" None]
  by (simp add: updateSettings_def isValidWebLLMModel_def models_ts_def WEBLLM_MODELS_def
      getDefaultModel_def newWebLLMChatKernel_def)

section \<open>The report of the model list\<close>

lemma includesText_Nil: "includesText s []"
  by (cases s) simp_all

lemma startsWith_append: "startsWith (p @ r) p"
  by (induction p) simp_all

lemma includesText_here: "includesText (b @ c) b"
  by (cases b) (simp_all add: includesText_Nil startsWith_append [of "_ # _", simplified])

lemma includesText_later: "includesText s sub \<Longrightarrow> includesText (a @ s) sub"
  by (induction a) simp_all

lemma includesText_middle: "includesText (a @ b @ c) b"
  by (rule includesText_later) (rule includesText_here)


text \<open>
  Claim C8, as stated, fails on the catalog of models.ts: it has four entries, not more
  than twenty, and the report of \<open>%ai model\<close> holds the ellipsis line all the same.
\<close>

theorem model_list_ellipsis_counterexample:
  \<open>\<not> 20 < length (models models_ts) \<and>
   magicText (handleMagic models_ts None ''%ai model'' newWebLLMChatKernel) =
     ''Model not yet initialized. Default: Llama-3.2-3B-Instruct-q4f16_1-MLC\<newline>\<newline>'' @
     ''Available models (showing first 20 of 4):\<newline>'' @
     ''  SmolLM2-360M-Instruct-q4f16_1-MLC\<newline>'' @
     ''  TinyLlama-1.1B-Chat-v1.0-q4f16_1-MLC-1k\<newline>'' @
     ''  Llama-3.2-3B-Instruct-q4f16_1-MLC\<newline>'' @
     ''  Mistral-7B-Instruct-v0.3-q4f16_1-MLC\<newline>'' @
     ''  ...\<newline>\<newline>'' @
     ''Use "%ai model <name>" to switch models.''\<close>
  by (simp add: handleMagic_def trim_def isWhiteSpace_def models_ts_def WEBLLM_MODELS_def
      DEFAULT_WEBLLM_MODEL_def newWebLLMChatKernel_def getDefaultModel_def isInitialized_def
      getModelName_def digit_def)


text \<open>
  Claim C8, amended. The magic \<open>%ai model\<close> / \<open>%ai models\<close> leaves the session as it is
  and reports the current model name when the session is initialized and otherwise
  \<open>Model not yet initialized\<close> with the resolved default, then a header with the size of
  the catalog, the first twenty entries of the catalog (all of them when there are fewer),
  an ellipsis line whatever the size of the catalog, and the usage hint.
\<close>

theorem model_list_report:
  assumes \<open>trim code = ''%ai model'' \<or> trim code = ''%ai models''\<close>
  shows \<open>handleMagic cat settingsDefaultModel code s =
     (Inr (Some
        ((if initialized s
          then ''Current model: '' @ (case modelName s of None \<Rightarrow> ''null'' | Some n \<Rightarrow> n)
          else ''Model not yet initialized. Default: '' @ getDefaultModel cat settingsDefaultModel) @
         ''\<newline>\<newline>Available models (showing first 20 of '' @ decimal (length (models cat)) @
         ''):\<newline>  '' @ join ''\<newline>  '' (take 20 (models cat)) @
         ''\<newline>  ...\<newline>\<newline>Use "%ai model <name>" to switch models.'')), s) \<and>
     length (take 20 (models cat)) \<le> 20 \<and>
     includesText (magicText (handleMagic cat settingsDefaultModel code s)) ''\<newline>  ...\<newline>''\<close>
proof -
  let ?status = "if initialized s
          then ''Current model: '' @ (case modelName s of None \<Rightarrow> ''null'' | Some n \<Rightarrow> n)
          else ''Model not yet initialized. Default: '' @ getDefaultModel cat settingsDefaultModel"
  let ?head = "?status @ ''\<newline>\<newline>Available models (showing first 20 of '' @
     decimal (length (models cat)) @ ''):\<newline>  '' @ join ''\<newline>  '' (take 20 (models cat))"
  have hm: \<open>handleMagic cat settingsDefaultModel code s =
     (Inr (Some (?head @ ''\<newline>  ...\<newline>'' @ ''\<newline>Use "%ai model <name>" to switch models.'')), s)\<close>
    using assms by (auto simp: handleMagic_def Let_def isInitialized_def getModelName_def)
  have \<open>includesText (?head @ ''\<newline>  ...\<newline>'' @ ''\<newline>Use "%ai model <name>" to switch models.'')
     ''\<newline>  ...\<newline>''\<close>
    by (rule includesText_middle)
  with hm show ?thesis by simp
qed

theorem model_list_report_witness:
  \<open>handleMagic catalogAB None ''  %ai models '' newWebLLMChatKernel =
     (Inr (Some (''Model not yet initialized. Default: A\<newline>\<newline>'' @
        ''Available models (showing first 20 of 2):\<newline>  A\<newline>  B\<newline>  ...\<newline>\<newline>'' @
        ''Use "%ai model <name>" to switch models.'')), newWebLLMChatKernel)\<close>
  using model_list_report [of "''  %ai models ''" catalogAB None newWebLLMChatKernel]
  by (simp add: trim_def isWhiteSpace_def catalogAB_def newWebLLMChatKernel_def getDefaultModel_def
      digit_def)


section \<open>Magic commands at the execute boundary\<close>










section \<open>The unwrap steps of the resolver\<close>

lemma await_plain: "\<not> isThenable v \<Longrightarrow> await v = Resolved v"
  by (cases v) simp_all

lemma callIfFunction_plain: "\<not> isFunction v \<Longrightarrow> callIfFunction v = Inr v"
  by (cases v) simp_all

lemma unwrap_plain: "\<not> isThenable e \<Longrightarrow> \<not> isFunction e \<Longrightarrow> unwrap e = Resolved e"
  by (simp add: unwrap_def awaitIfThenable_def await_plain callIfFunction_plain)

lemma unwrap_function: "\<not> isThenable e \<Longrightarrow> unwrap (Fn c (Inr e)) = Resolved e"
  by (simp add: unwrap_def awaitIfThenable_def await_plain)

lemma unwrap_promise:
  "\<not> isThenable e \<Longrightarrow> \<not> isFunction e \<Longrightarrow> unwrap (Thenable (Resolved e)) = Resolved e"
  by (simp add: unwrap_def awaitIfThenable_def await_plain callIfFunction_plain)

lemma unwrap_promise_function:
  "\<not> isThenable e \<Longrightarrow> unwrap (Thenable (Resolved (Fn c (Inr e)))) = Resolved e"
  by (simp add: unwrap_def awaitIfThenable_def await_plain)

lemma importShared_factory:
  assumes "sharedScope = Some sc \<or> sharedScope = None \<and> global = Some sc"
    and "map_of sc pkg = Some ((key, Some (Inr result)) # others)"
  shows "importShared global sharedScope pkg = (unwrap result, Some sc)"
  using assms by (auto simp: importShared_def)


text \<open>
  Claim C2. For every package whose first enumerated version has a factory that returns
  \<open>result\<close>, in the stored scope or in the global one used as fallback, \<open>importShared\<close>
  gives what the two unwrap steps give, in this order: \<open>result\<close> is awaited if it is
  then-able, then the value so obtained is invoked if it is callable (the last \<open>await\<close> is
  the resolution of the promise that the async function returns). So a promise of a
  function of the exports, a promise of the exports, a function of the exports and the
  plain exports all resolve to the same exports, the plain ones unchanged; and a callable
  is invoked once only, since a function that returns a function resolves to the inner
  function.
\<close>

theorem importShared_unwraps:
  assumes "sharedScope = Some sc \<or> sharedScope = None \<and> global = Some sc"
    and "map_of sc pkg = Some ((key, Some (Inr result)) # others)"
  shows "fst (importShared global sharedScope pkg) =
           (case awaitIfThenable result of
              Resolved r1 \<Rightarrow> (case callIfFunction r1 of Inr r2 \<Rightarrow> await r2 | Inl e \<Rightarrow> Rejected e)
            | Rejected e \<Rightarrow> Rejected e
            | Pending \<Rightarrow> Pending) \<and>
         (\<not> isThenable exports \<and> \<not> isFunction exports \<and>
          (result = Thenable (Resolved (Fn c (Inr exports))) \<or>
           result = Thenable (Resolved exports) \<or>
           result = Fn c (Inr exports) \<or>
           result = exports) \<longrightarrow>
          fst (importShared global sharedScope pkg) = Resolved exports) \<and>
         (result = Fn c (Inr (Fn c' body)) \<longrightarrow>
          fst (importShared global sharedScope pkg) = Resolved (Fn c' body))"
proof -
  have i: "fst (importShared global sharedScope pkg) = unwrap result"
    using importShared_factory [OF assms] by simp
  have "unwrap (Fn c (Inr (Fn c' body))) = Resolved (Fn c' body)"
    by (simp add: unwrap_function)
  with i show ?thesis
    by (auto simp: unwrap_plain unwrap_function unwrap_promise unwrap_promise_function)
      (simp add: unwrap_def split: outcome.splits sum.splits)
qed

theorem importShared_unwraps_witness:
  "fst (importShared None (Some stubScope) ''@jupyterlite/kernel'') =
     Resolved (Obj [(''BaseKernel'', Fn True (Inr Undefined)),
                    (''IKernelSpecs'', Obj [(''name'', Str ''IKernelSpecs'')])])"
  using importShared_unwraps [of "Some stubScope" stubScope None "''@jupyterlite/kernel''" "''0.4.0''"
      "Thenable (Resolved (Fn False (Inr
            (Obj [(''BaseKernel'', Fn True (Inr Undefined)),
                  (''IKernelSpecs'', Obj [(''name'', Str ''IKernelSpecs'')])]))))" "[]"
      "Obj [(''BaseKernel'', Fn True (Inr Undefined)),
                  (''IKernelSpecs'', Obj [(''name'', Str ''IKernelSpecs'')])]" False]
  by (simp add: stubScope_def importShared_def unwrap_def awaitIfThenable_def)


section \<open>The modules of the container\<close>

lemma importShared_scope: "snd (importShared global (Some sc) pkg) = Some sc"
  by (simp add: importShared_def split: option.splits list.splits sum.splits)













lemma importSettingRegistry_scope:
  "snd (importSettingRegistry global (Some sc)) = Some sc"
  using importShared_scope [of global sc "''@jupyterlab/settingregistry''"]
  by (cases "importShared global (Some sc) ''@jupyterlab/settingregistry''")
    (auto simp: importSettingRegistry_def split: outcome.splits sum.splits)













end
